theory Spec2Isabelle
  imports Main "HOL-Library.Word"
begin

unbundle bit_operations_syntax

section \<open>The PCF8575 driver (adafruit_pcf8575.py)\<close>

text \<open>
  Python integers are unbounded: they are \<open>int\<close>, and \<open>&\<close>, \<open>|\<close>, \<open>~\<close>, \<open><<\<close>, \<open>>>\<close>
  are \<open>AND\<close>, \<open>OR\<close>, \<open>NOT\<close>, \<open>push_bit\<close>, \<open>drop_bit\<close> on \<open>int\<close> (two's complement of
  unbounded width, as in Python). An element of a \<open>bytearray\<close> is an \<open>8 word\<close>; reading
  it gives the integer \<open>uint b\<close>, and storing the integer \<open>x\<close> (always masked with
  \<open>0xFF\<close> in this driver) gives \<open>word_of_int x\<close>.
\<close>

type_synonym byte = "8 word"

subsection \<open>Exceptions\<close>

datatype error =
    AssertionError
  | ValueError string
  | NotImplementedError string
  | OSError

subsection \<open>The bus transport\<close>

text \<open>
  \<open>adafruit_bus_device.i2c_device.I2CDevice\<close> is an external library: the driver
  only calls \<open>write\<close> and \<open>readinto\<close> on it. It is modelled as the environment: a chip
  state of any type, the chip's reaction to a write transaction (\<open>None\<close>: the transport
  raises) and to a two-byte read transaction, and the trace \<open>sent\<close> of every buffer the
  driver handed to \<open>write\<close>, in order.
\<close>

record 'd I2CDevice =
  chip :: 'd
  on_write :: "'d \<Rightarrow> byte list \<Rightarrow> 'd option"
  on_read :: "'d \<Rightarrow> ((byte \<times> byte) \<times> 'd) option"
  sent :: "byte list list"

definition i2c_write :: "'d I2CDevice \<Rightarrow> byte list \<Rightarrow> (error + unit) \<times> 'd I2CDevice" where
  "i2c_write i2c buf =
     (case on_write i2c (chip i2c) buf of
        None \<Rightarrow> (Inl OSError, i2c\<lparr>sent := sent i2c @ [buf]\<rparr>)
      | Some c \<Rightarrow> (Inr (), i2c\<lparr>chip := c, sent := sent i2c @ [buf]\<rparr>))"

text \<open>\<open>readinto\<close> fills the caller's buffer in place; the new contents are returned.\<close>

definition i2c_readinto ::
  "'d I2CDevice \<Rightarrow> byte list \<Rightarrow> (error + byte list) \<times> 'd I2CDevice" where
  "i2c_readinto i2c buf =
     (case on_read i2c (chip i2c) of
        None \<Rightarrow> (Inl OSError, i2c)
      | Some ((b0, b1), c) \<Rightarrow> (Inr (buf[0 := b0, 1 := b1]), i2c\<lparr>chip := c\<rparr>))"

subsection \<open>class PCF8575\<close>

record 'd PCF8575 =
  i2c_device :: "'d I2CDevice"
  writebuf :: "byte list"
  readbuf :: "byte list"

text \<open>\<open>__init__\<close>: both buffers are \<open>bytearray([0, 0])\<close>.\<close>

definition PCF8575_init :: "'d I2CDevice \<Rightarrow> 'd PCF8575" where
  "PCF8575_init dev = \<lparr>i2c_device = dev, writebuf = [0, 0], readbuf = [0, 0]\<rparr>"

text \<open>
  \<open>write_gpio\<close>: the two stores into \<open>_writebuf\<close> happen before the bus write, so
  they stay when the transport raises.
\<close>

definition write_gpio :: "'d PCF8575 \<Rightarrow> int \<Rightarrow> (error + unit) \<times> 'd PCF8575" where
  "write_gpio self val =
     (let self1 = self\<lparr>writebuf := (writebuf self)[0 := word_of_int (val AND 0xFF)]\<rparr>;
          self2 = self1\<lparr>writebuf := (writebuf self1)[1 := word_of_int (drop_bit 8 val AND 0xFF)]\<rparr>
      in case i2c_write (i2c_device self2) (writebuf self2) of
           (r, dev) \<Rightarrow> (r, self2\<lparr>i2c_device := dev\<rparr>))"

definition read_gpio :: "'d PCF8575 \<Rightarrow> (error + int) \<times> 'd PCF8575" where
  "read_gpio self =
     (case i2c_readinto (i2c_device self) (readbuf self) of
        (Inl e, dev) \<Rightarrow> (Inl e, self\<lparr>i2c_device := dev\<rparr>)
      | (Inr buf, dev) \<Rightarrow>
          (let self1 = self\<lparr>i2c_device := dev, readbuf := buf\<rparr>
           in (Inr (uint (readbuf self1 ! 0) OR push_bit 8 (uint (readbuf self1 ! 1))), self1)))"

text \<open>
  \<open>write_pin\<close>: \<open>1 << pin\<close> raises ValueError for a negative \<open>pin\<close>, before
  \<open>write_gpio\<close> is called.
\<close>

definition write_pin :: "'d PCF8575 \<Rightarrow> int \<Rightarrow> bool \<Rightarrow> (error + unit) \<times> 'd PCF8575" where
  "write_pin self pin val =
     (let buff = uint (writebuf self ! 0) OR push_bit 8 (uint (writebuf self ! 1))
      in if pin < 0 then (Inl (ValueError ''negative shift count''), self)
         else if val then write_gpio self (buff OR push_bit (nat pin) 1)
         else write_gpio self (buff AND NOT (push_bit (nat pin) 1)))"

text \<open>
  \<open>read_pin\<close>: \<open>read_gpio\<close> runs first; \<open>>> pin\<close> raises ValueError for a negative
  \<open>pin\<close> after the bus read.
\<close>

definition read_pin :: "'d PCF8575 \<Rightarrow> int \<Rightarrow> (error + bool) \<times> 'd PCF8575" where
  "read_pin self pin =
     (case read_gpio self of
        (Inl e, self1) \<Rightarrow> (Inl e, self1)
      | (Inr g, self1) \<Rightarrow>
          if pin < 0 then (Inl (ValueError ''negative shift count''), self1)
          else (Inr (drop_bit (nat pin) g AND 0x1 \<noteq> 0), self1))"

subsection \<open>class DigitalInOut\<close>

datatype Direction = INPUT | OUTPUT

datatype Pull = UP | DOWN

text \<open>
  The setters compare their argument with \<open>Direction.INPUT\<close>, \<open>Direction.OUTPUT\<close> and
  \<open>Pull.UP\<close>; Python passes any object, so the argument is one of these values.
\<close>

datatype pyobj = DirectionObj Direction | PullObj Pull | NoneObj | IntObj int

text \<open>
  The fields \<open>_pin\<close> and \<open>_dir\<close>. The field \<open>_pcf\<close> is a reference to the shared
  PCF8575 object: every operation below takes that object's state and returns it
  updated, so all pins of one chip work on one register state.
\<close>

record DigitalInOut =
  dio_pin :: int
  dio_dir :: Direction

definition DigitalInOut_init :: "int \<Rightarrow> error + DigitalInOut" where
  "DigitalInOut_init pin_number = Inr \<lparr>dio_pin = pin_number, dio_dir = INPUT\<rparr>"

definition get_pin :: "'d PCF8575 \<Rightarrow> int \<Rightarrow> (error + DigitalInOut) \<times> 'd PCF8575" where
  "get_pin self pin =
     (if 0 \<le> pin \<and> pin \<le> 15 then (DigitalInOut_init pin, self)
      else (Inl AssertionError, self))"

text \<open>The \<open>value\<close> property: getter and setter.\<close>

definition get_value ::
  "DigitalInOut \<Rightarrow> 'd PCF8575 \<Rightarrow> (error + bool) \<times> DigitalInOut \<times> 'd PCF8575" where
  "get_value self pcf =
     (case read_pin pcf (dio_pin self) of (r, pcf1) \<Rightarrow> (r, self, pcf1))"

definition set_value ::
  "DigitalInOut \<Rightarrow> 'd PCF8575 \<Rightarrow> bool \<Rightarrow> (error + unit) \<times> DigitalInOut \<times> 'd PCF8575" where
  "set_value self pcf val =
     (case write_pin pcf (dio_pin self) val of (r, pcf1) \<Rightarrow> (r, self, pcf1))"

text \<open>The \<open>direction\<close> property: \<open>_dir\<close> is stored after \<open>write_pin\<close> returned.\<close>

definition get_direction :: "DigitalInOut \<Rightarrow> Direction" where
  "get_direction self = dio_dir self"

definition set_direction ::
  "DigitalInOut \<Rightarrow> 'd PCF8575 \<Rightarrow> pyobj \<Rightarrow> (error + unit) \<times> DigitalInOut \<times> 'd PCF8575" where
  "set_direction self pcf val =
     (if val = DirectionObj INPUT then
        (case write_pin pcf (dio_pin self) True of
           (Inl e, pcf1) \<Rightarrow> (Inl e, self, pcf1)
         | (Inr u, pcf1) \<Rightarrow> (Inr (), self\<lparr>dio_dir := INPUT\<rparr>, pcf1))
      else if val = DirectionObj OUTPUT then
        (case write_pin pcf (dio_pin self) False of
           (Inl e, pcf1) \<Rightarrow> (Inl e, self, pcf1)
         | (Inr u, pcf1) \<Rightarrow> (Inr (), self\<lparr>dio_dir := OUTPUT\<rparr>, pcf1))
      else (Inl (ValueError ''Expected INPUT or OUTPUT direction!''), self, pcf))"

text \<open>The \<open>pull\<close> property.\<close>

definition get_pull :: "DigitalInOut \<Rightarrow> Pull" where
  "get_pull self = UP"

definition set_pull ::
  "DigitalInOut \<Rightarrow> 'd PCF8575 \<Rightarrow> pyobj \<Rightarrow> (error + unit) \<times> DigitalInOut \<times> 'd PCF8575" where
  "set_pull self pcf val =
     (if val = PullObj UP then
        (case write_pin pcf (dio_pin self) True of (r, pcf1) \<Rightarrow> (r, self, pcf1))
      else (Inl (NotImplementedError ''Pull-down resistors not supported.''), self, pcf))"

definition switch_to_output ::
  "DigitalInOut \<Rightarrow> 'd PCF8575 \<Rightarrow> bool \<Rightarrow> (error + unit) \<times> DigitalInOut \<times> 'd PCF8575" where
  "switch_to_output self pcf val =
     (case set_direction self pcf (DirectionObj OUTPUT) of
        (Inl e, self1, pcf1) \<Rightarrow> (Inl e, self1, pcf1)
      | (Inr u, self1, pcf1) \<Rightarrow> set_value self1 pcf1 val)"

definition switch_to_input ::
  "DigitalInOut \<Rightarrow> 'd PCF8575 \<Rightarrow> pyobj \<Rightarrow> (error + unit) \<times> DigitalInOut \<times> 'd PCF8575" where
  "switch_to_input self pcf pull =
     (case set_direction self pcf (DirectionObj INPUT) of
        (Inl e, self1, pcf1) \<Rightarrow> (Inl e, self1, pcf1)
      | (Inr u, self1, pcf1) \<Rightarrow> set_pull self1 pcf1 pull)"

section \<open>Observations on the state\<close>

text \<open>
  The register value a two-byte buffer holds: the expression \<open>buf[0] | (buf[1] << 8)\<close>
  that \<open>read_gpio\<close> applies to \<open>_readbuf\<close> and \<open>write_pin\<close> to \<open>_writebuf\<close>.
\<close>

definition reg16 :: "byte list \<Rightarrow> int" where
  "reg16 buf = uint (buf ! 0) OR push_bit 8 (uint (buf ! 1))"

text \<open>The cached register value: what \<open>write_pin\<close> reads back from \<open>_writebuf\<close>.\<close>

definition cached :: "'d PCF8575 \<Rightarrow> int" where
  "cached self = reg16 (writebuf self)"

text \<open>
  The wire encoding of a register value, in the spec's words: byte 0 is \<open>v & 0xFF\<close>,
  byte 1 is \<open>(v >> 8) & 0xFF\<close>.
\<close>

definition le16 :: "int \<Rightarrow> byte list" where
  "le16 v = [word_of_int (v AND 0xFF), word_of_int (drop_bit 8 v AND 0xFF)]"

text \<open>
  Both buffers are created with two elements and never resized: the driver indexes
  them at 0 and 1 only.
\<close>

definition buffers_ok :: "'d PCF8575 \<Rightarrow> bool" where
  "buffers_ok self = (length (writebuf self) = 2 \<and> length (readbuf self) = 2)"

text \<open>
  A transport that raises on no two-byte write transaction, whatever the chip's state.
\<close>

definition accepts_writes :: "'d I2CDevice \<Rightarrow> bool" where
  "accepts_writes dev = (\<forall>c b0 b1. on_write dev c [b0, b1] \<noteq> None)"

subsection \<open>A loopback device\<close>

text \<open>
  A simulated chip that latches the two bytes of a write transaction and answers a
  read transaction with the latched bytes. It starts with all pins released.
\<close>

definition echo_write :: "byte \<times> byte \<Rightarrow> byte list \<Rightarrow> (byte \<times> byte) option" where
  "echo_write c buf = (case buf of [b0, b1] \<Rightarrow> Some (b0, b1) | _ \<Rightarrow> None)"

definition echo_read :: "byte \<times> byte \<Rightarrow> ((byte \<times> byte) \<times> byte \<times> byte) option" where
  "echo_read c = Some (c, c)"

definition echo :: "(byte \<times> byte) I2CDevice" where
  "echo = \<lparr>chip = (0xFF, 0xFF), on_write = echo_write, on_read = echo_read, sent = []\<rparr>"

subsection \<open>Sequences of calls\<close>

text \<open>
  A client's calls on one PCF8575 object. \<open>exec\<close> is the state the object is left in
  by one call, whether the call returned or raised; \<open>run\<close> makes the calls in order.
\<close>

datatype op = WriteGpio int | ReadGpio | WritePin int bool | ReadPin int

fun exec :: "'d PCF8575 \<Rightarrow> op \<Rightarrow> 'd PCF8575" where
  "exec s (WriteGpio v) = snd (write_gpio s v)"
| "exec s ReadGpio = snd (read_gpio s)"
| "exec s (WritePin p v) = snd (write_pin s p v)"
| "exec s (ReadPin p) = snd (read_pin s p)"

fun run :: "'d PCF8575 \<Rightarrow> op list \<Rightarrow> 'd PCF8575" where
  "run s [] = s"
| "run s (c # cs) = run (exec s c) cs"

text \<open>
  The spec's invariant, in its words: the last written register value is the bitwise
  OR/AND composition of the \<open>write_pin\<close> calls layered on the most recent
  \<open>write_gpio\<close> value; reads contribute nothing.
\<close>

fun layer :: "int \<Rightarrow> op \<Rightarrow> int" where
  "layer r (WriteGpio v) = v"
| "layer r ReadGpio = r"
| "layer r (WritePin p True) = r OR push_bit (nat p) 1"
| "layer r (WritePin p False) = r AND NOT (push_bit (nat p) 1)"
| "layer r (ReadPin p) = r"

text \<open>The arguments the spec gives the calls: a 16-bit value, a pin index 0..15.\<close>

fun in_range :: "op \<Rightarrow> bool" where
  "in_range (WriteGpio v) = (0 \<le> v \<and> v < 65536)"
| "in_range ReadGpio = True"
| "in_range (WritePin p v) = (0 \<le> p \<and> p \<le> 15)"
| "in_range (ReadPin p) = True"

section \<open>Bytes and bits\<close>

lemma bit_255: "bit (0xFF::int) n = (n < 8)"
proof -
  have e: "(0xFF::int) = mask 8" by (simp add: mask_eq_exp_minus_1)
  show ?thesis by (subst e) (simp add: bit_mask_iff)
qed

lemma bit_reg16: "bit (reg16 [a, b]) n = (if n < 8 then bit a n else bit b (n - 8))"
  by (auto simp add: reg16_def bit_simps bit_uint_iff dest: bit_imp_le_length)

lemma bit_byte_lo: "bit (word_of_int (v AND 0xFF) :: byte) n = (n < 8 \<and> bit v n)"
  by (auto simp add: bit_255 bit_simps bit_word_of_int_iff)

lemma bit_byte_hi:
  "bit (word_of_int (drop_bit 8 v AND 0xFF) :: byte) n = (n < 8 \<and> bit v (n + 8))"
  by (auto simp add: bit_255 bit_simps bit_word_of_int_iff add.commute)

lemma reg16_le16: "reg16 (le16 v) = take_bit 16 v"
  unfolding le16_def
  by (rule bit_eqI) (auto simp add: bit_reg16 bit_byte_lo bit_byte_hi bit_255 bit_simps)

lemma reg16_range: "take_bit 16 (reg16 [a, b]) = reg16 [a, b]"
  by (rule bit_eqI) (auto simp add: bit_reg16 bit_simps dest: bit_imp_le_length)

lemma two_bytes: "length xs = 2 \<Longrightarrow> \<exists>a b. xs = [a, b]"
  by (cases xs; cases "tl xs") auto

lemma cached_range: "length (writebuf s) = 2 \<Longrightarrow> take_bit 16 (cached s) = cached s"
  using two_bytes [of "writebuf s"] by (auto simp add: cached_def reg16_range)

lemma le16_length: "length (le16 v) = 2"
  by (simp add: le16_def)

lemma uint_le16_0: "uint (le16 v ! 0) = v AND 0xFF"
  by (rule bit_eqI) (auto simp add: le16_def bit_uint_iff bit_byte_lo bit_255 bit_simps)

lemma uint_le16_1: "uint (le16 v ! 1) = drop_bit 8 v AND 0xFF"
  by (rule bit_eqI)
    (auto simp add: le16_def bit_uint_iff bit_byte_hi bit_255 bit_simps add.commute)

lemma take_bit_16_pin: "n \<le> 15 \<Longrightarrow> take_bit 16 (push_bit n (1::int)) = 2 ^ n"
  by (simp add: take_bit_push_bit push_bit_eq_mult)

lemma bit_reg16_le16: "bit (reg16 (le16 r)) j = (j < 16 \<and> bit r j)"
  by (simp add: reg16_le16 bit_take_bit_iff)

lemma bit_set_pin: "bit (r OR push_bit n (1::int)) j = (bit r j \<or> j = n)"
  by (auto simp add: bit_simps)

lemma bit_clear_pin: "bit (r AND NOT (push_bit n (1::int))) j = (bit r j \<and> j \<noteq> n)"
  by (auto simp add: bit_simps)

lemma le16_reg16: "le16 (reg16 [a, b]) = [a, b]"
  unfolding le16_def
  by (auto intro!: bit_word_eqI simp add: bit_255 bit_reg16 bit_simps
      dest: bit_imp_le_length)

lemma le16_cached: "length (writebuf s) = 2 \<Longrightarrow> le16 (cached s) = writebuf s"
  using two_bytes [of "writebuf s"] by (auto simp add: cached_def le16_reg16)

lemma le16_take_bit: "le16 (take_bit 16 v) = le16 v"
  unfolding le16_def
  by (auto intro!: bit_word_eqI simp add: bit_255 bit_simps)

lemma le16_high_pin:
  assumes "length (writebuf s) = 2" and "16 \<le> n"
  shows "le16 (cached s OR push_bit n 1) = writebuf s"
    and "le16 (cached s AND NOT (push_bit n 1)) = writebuf s"
proof -
  have "take_bit 16 (cached s OR push_bit n 1) = take_bit 16 (cached s)"
    using assms(2) by (intro bit_eqI) (auto simp add: bit_simps)
  then have "le16 (cached s OR push_bit n 1) = le16 (cached s)"
    by (metis le16_take_bit)
  then show "le16 (cached s OR push_bit n 1) = writebuf s"
    using assms(1) by (simp only: le16_cached)
  have "take_bit 16 (cached s AND NOT (push_bit n 1)) = take_bit 16 (cached s)"
    using assms(2) by (intro bit_eqI) (auto simp add: bit_simps)
  then have "le16 (cached s AND NOT (push_bit n 1)) = le16 (cached s)"
    by (metis le16_take_bit)
  then show "le16 (cached s AND NOT (push_bit n 1)) = writebuf s"
    using assms(1) by (simp only: le16_cached)
qed

lemma echo_write_le16: "echo_write c (le16 v) = Some (le16 v ! 0, le16 v ! 1)"
  by (simp add: echo_write_def le16_def)

section \<open>What each register operation does to the state\<close>

lemma init_cached: "cached (PCF8575_init dev) = 0"
  by (simp add: cached_def reg16_def PCF8575_init_def)

lemma init_fields:
  "writebuf (PCF8575_init dev) = [0, 0]" "readbuf (PCF8575_init dev) = [0, 0]"
  "i2c_device (PCF8575_init dev) = dev"
  by (simp_all add: PCF8575_init_def)

lemma write_gpio_writebuf:
  "length (writebuf s) = 2 \<Longrightarrow> writebuf (snd (write_gpio s v)) = le16 v"
  using two_bytes [of "writebuf s"]
  by (auto simp add: write_gpio_def i2c_write_def le16_def Let_def
      split: option.splits prod.splits)

lemma write_gpio_sent:
  "length (writebuf s) = 2 \<Longrightarrow>
   sent (i2c_device (snd (write_gpio s v))) = sent (i2c_device s) @ [le16 v]"
  using two_bytes [of "writebuf s"]
  by (auto simp add: write_gpio_def i2c_write_def le16_def Let_def
      split: option.splits prod.splits)

lemma write_gpio_result:
  "length (writebuf s) = 2 \<Longrightarrow>
   fst (write_gpio s v) =
     (case on_write (i2c_device s) (chip (i2c_device s)) (le16 v) of
        None \<Rightarrow> Inl OSError | Some c \<Rightarrow> Inr ())"
  using two_bytes [of "writebuf s"]
  by (auto simp add: write_gpio_def i2c_write_def le16_def Let_def
      split: option.splits prod.splits)

lemma write_gpio_chip:
  "length (writebuf s) = 2 \<Longrightarrow>
   chip (i2c_device (snd (write_gpio s v))) =
     (case on_write (i2c_device s) (chip (i2c_device s)) (le16 v) of
        None \<Rightarrow> chip (i2c_device s) | Some c \<Rightarrow> c)"
  using two_bytes [of "writebuf s"]
  by (auto simp add: write_gpio_def i2c_write_def le16_def Let_def
      split: option.splits prod.splits)

lemma write_gpio_frame:
  "readbuf (snd (write_gpio s v)) = readbuf s"
  "on_write (i2c_device (snd (write_gpio s v))) = on_write (i2c_device s)"
  "on_read (i2c_device (snd (write_gpio s v))) = on_read (i2c_device s)"
  by (auto simp add: write_gpio_def i2c_write_def Let_def split: option.splits prod.splits)

lemma write_pin_eq:
  "0 \<le> pin \<Longrightarrow> write_pin s pin val =
     write_gpio s (if val then cached s OR push_bit (nat pin) 1
                   else cached s AND NOT (push_bit (nat pin) 1))"
  by (simp add: write_pin_def cached_def reg16_def Let_def)

lemma write_pin_neg:
  "pin < 0 \<Longrightarrow> write_pin s pin val = (Inl (ValueError ''negative shift count''), s)"
  by (simp add: write_pin_def Let_def)

lemma read_gpio_frame:
  "writebuf (snd (read_gpio s)) = writebuf s"
  "sent (i2c_device (snd (read_gpio s))) = sent (i2c_device s)"
  "on_write (i2c_device (snd (read_gpio s))) = on_write (i2c_device s)"
  "on_read (i2c_device (snd (read_gpio s))) = on_read (i2c_device s)"
  "length (readbuf (snd (read_gpio s))) = length (readbuf s)"
  by (auto simp add: read_gpio_def i2c_readinto_def Let_def
      split: option.splits prod.splits sum.splits)

lemma read_pin_frame:
  "writebuf (snd (read_pin s p)) = writebuf s"
  "sent (i2c_device (snd (read_pin s p))) = sent (i2c_device s)"
  "on_write (i2c_device (snd (read_pin s p))) = on_write (i2c_device s)"
  "on_read (i2c_device (snd (read_pin s p))) = on_read (i2c_device s)"
  "length (readbuf (snd (read_pin s p))) = length (readbuf s)"
  using read_gpio_frame [of s]
  by (auto simp add: read_pin_def split: prod.splits sum.splits)

lemma read_gpio_reply:
  assumes "length (readbuf t) = 2"
    and "on_read (i2c_device t) (chip (i2c_device t)) = Some ((b0, b1), c)"
  shows "fst (read_gpio t) = Inr (uint b0 OR push_bit 8 (uint b1))"
    and "readbuf (snd (read_gpio t)) = [b0, b1]"
    and "chip (i2c_device (snd (read_gpio t))) = c"
  using assms two_bytes [of "readbuf t"]
  by (auto simp add: read_gpio_def i2c_readinto_def Let_def)

lemma read_gpio_bus_error:
  assumes "on_read (i2c_device t) (chip (i2c_device t)) = None"
  shows "fst (read_gpio t) = Inl OSError" and "readbuf (snd (read_gpio t)) = readbuf t"
  using assms by (simp_all add: read_gpio_def i2c_readinto_def)

lemma get_value_frame:
  "writebuf (snd (snd (get_value d s))) = writebuf s"
  "sent (i2c_device (snd (snd (get_value d s)))) = sent (i2c_device s)"
  "fst (snd (get_value d s)) = d"
  using read_pin_frame [of s "dio_pin d"]
  by (auto simp add: get_value_def split: prod.splits)

lemma write_pin_frame:
  "readbuf (snd (write_pin s p v)) = readbuf s"
  "on_write (i2c_device (snd (write_pin s p v))) = on_write (i2c_device s)"
  "on_read (i2c_device (snd (write_pin s p v))) = on_read (i2c_device s)"
  by (simp_all add: write_pin_def Let_def write_gpio_frame)

lemma write_gpio_ok:
  "length (writebuf s) = 2 \<Longrightarrow> accepts_writes (i2c_device s) \<Longrightarrow> fst (write_gpio s v) = Inr ()"
  by (auto simp add: write_gpio_result le16_def accepts_writes_def split: option.splits)

lemma write_pin_ok:
  "length (writebuf s) = 2 \<Longrightarrow> 0 \<le> p \<Longrightarrow> accepts_writes (i2c_device s) \<Longrightarrow>
   fst (write_pin s p v) = Inr ()"
  by (simp only: write_pin_eq write_gpio_ok)

lemma write_pin_accepts:
  "accepts_writes (i2c_device (snd (write_pin s p v))) = accepts_writes (i2c_device s)"
  by (simp add: accepts_writes_def write_pin_frame)

lemma write_pin_bits:
  assumes "length (writebuf s) = 2" and "0 \<le> i"
  shows "sent (i2c_device (snd (write_pin s i v)))
           = sent (i2c_device s) @ [writebuf (snd (write_pin s i v))]"
    and "bit (cached (snd (write_pin s i v))) j
           = (j < 16 \<and> (if j = nat i then v else bit (cached s) j))"
proof -
  let ?r = "if v then cached s OR push_bit (nat i) 1 else cached s AND NOT (push_bit (nat i) 1)"
  have w: "writebuf (snd (write_pin s i v)) = le16 ?r"
    using assms by (simp only: write_pin_eq write_gpio_writebuf)
  have "sent (i2c_device (snd (write_pin s i v))) = sent (i2c_device s) @ [le16 ?r]"
    using assms by (simp only: write_pin_eq write_gpio_sent)
  then show "sent (i2c_device (snd (write_pin s i v)))
           = sent (i2c_device s) @ [writebuf (snd (write_pin s i v))]"
    by (simp only: w)
  have c: "bit (cached s) j \<Longrightarrow> j < 16"
    using cached_range [OF assms(1)] by (metis bit_take_bit_iff)
  have "bit (reg16 (le16 ?r)) j = (j < 16 \<and> (if j = nat i then v else bit (cached s) j))"
    using c by (cases v) (auto simp add: bit_reg16_le16 bit_set_pin bit_clear_pin
        simp del: push_bit_of_1)
  then show "bit (cached (snd (write_pin s i v))) j
           = (j < 16 \<and> (if j = nat i then v else bit (cached s) j))"
    by (simp only: cached_def w)
qed

section \<open>Sequences of calls and the cached register\<close>

lemma write_gpio_length: "length (writebuf (snd (write_gpio s v))) = length (writebuf s)"
  by (auto simp add: write_gpio_def i2c_write_def Let_def split: option.splits prod.splits)

lemma write_pin_length: "length (writebuf (snd (write_pin s p v))) = length (writebuf s)"
  by (simp add: write_pin_def Let_def write_gpio_length)

lemma exec_length: "length (writebuf (exec s c)) = length (writebuf s)"
  by (cases c) (simp_all add: write_gpio_length write_pin_length read_gpio_frame read_pin_frame)

lemma run_length: "length (writebuf (run s cs)) = length (writebuf s)"
  by (induction cs arbitrary: s) (simp_all add: exec_length)

lemma run_append: "run s (xs @ ys) = run (run s xs) ys"
  by (induction xs arbitrary: s) simp_all

lemma cached_write_gpio:
  "length (writebuf s) = 2 \<Longrightarrow> cached (snd (write_gpio s v)) = take_bit 16 v"
  by (simp add: cached_def write_gpio_writebuf reg16_le16)

lemma take_bit_16_or_pin:
  assumes "take_bit 16 c = c" and "n \<le> 15"
  shows "take_bit 16 (c OR push_bit n (1::int)) = c OR push_bit n 1"
proof -
  have "take_bit 16 (push_bit n (1::int)) = push_bit n 1"
    using assms(2) by (intro bit_eqI) (auto simp add: bit_simps)
  then show ?thesis using assms(1) by (simp only: take_bit_or)
qed

lemma take_bit_16_and:
  assumes "take_bit 16 c = c"
  shows "take_bit 16 (c AND x) = c AND (x::int)"
proof -
  have "take_bit 16 (c AND x) = take_bit 16 c AND x"
    by (intro bit_eqI) (auto simp add: bit_simps)
  then show ?thesis using assms by simp
qed

lemma exec_layer:
  assumes "length (writebuf s) = 2" and "in_range c"
  shows "cached (exec s c) = layer (cached s) c"
proof (cases c)
  case (WriteGpio v)
  then have "take_bit 16 v = v" using assms(2) by (simp add: take_bit_int_eq_self)
  then show ?thesis using WriteGpio assms(1) by (simp add: cached_write_gpio)
next
  case ReadGpio
  then show ?thesis by (simp add: cached_def read_gpio_frame)
next
  case (WritePin p v)
  then have p: "0 \<le> p" and n: "nat p \<le> 15" using assms(2) by auto
  have e: "cached (exec s c) = take_bit 16 (if v then cached s OR push_bit (nat p) 1
      else cached s AND NOT (push_bit (nat p) 1))"
    unfolding WritePin exec.simps
    by (simp only: write_pin_eq [OF p] cached_write_gpio [OF assms(1)])
  show ?thesis
  proof (cases v)
    case True
    have "cached (exec s c) = cached s OR push_bit (nat p) 1"
      using True e
      by (simp only: if_True take_bit_16_or_pin [OF cached_range [OF assms(1)] n])
    then show ?thesis by (simp only: WritePin True layer.simps)
  next
    case False
    have "cached (exec s c) = cached s AND NOT (push_bit (nat p) 1)"
      using False e
      by (simp only: if_False take_bit_16_and [OF cached_range [OF assms(1)]])
    then show ?thesis by (simp only: WritePin False layer.simps)
  qed
next
  case (ReadPin p)
  then show ?thesis by (simp add: cached_def read_pin_frame)
qed

lemma run_layered:
  "length (writebuf s) = 2 \<Longrightarrow> list_all in_range cs \<Longrightarrow>
   cached (run s cs) = foldl layer (cached s) cs"
proof (induction cs arbitrary: s)
  case Nil
  then show ?case by simp
next
  case (Cons c cs)
  have "length (writebuf (exec s c)) = 2"
    using Cons.prems(1) by (simp add: exec_length)
  then have "cached (run (exec s c) cs) = foldl layer (cached (exec s c)) cs"
    using Cons.prems(2) by (intro Cons.IH) simp_all
  moreover have "cached (exec s c) = layer (cached s) c"
    using Cons.prems by (intro exec_layer) simp_all
  ultimately show ?case by simp
qed

section \<open>The pin view\<close>

lemma switch_to_output_eq:
  assumes "fst (write_pin s (dio_pin d) False) = Inr ()"
  shows "switch_to_output d s v =
     (fst (write_pin (snd (write_pin s (dio_pin d) False)) (dio_pin d) v),
      d\<lparr>dio_dir := OUTPUT\<rparr>,
      snd (write_pin (snd (write_pin s (dio_pin d) False)) (dio_pin d) v))"
  using assms
  by (cases "write_pin s (dio_pin d) False";
      cases "write_pin (snd (write_pin s (dio_pin d) False)) (dio_pin d) v")
    (simp add: switch_to_output_def set_direction_def set_value_def)

section \<open>The claims\<close>

subsection \<open>C1: the cached register value at construction\<close>

text \<open>
  C1 as the spec states it: the cached value starts at 0xFFFF, so the first
  \<open>write_pin(p, v)\<close> transmits 0xFFFF with bit \<open>p\<close> set to \<open>v\<close>. The constructor
  creates \<open>_writebuf\<close> as \<open>bytearray([0, 0])\<close>: on a fresh object over the loopback
  device, \<open>write_pin(3, False)\<close> transmits the bytes 0x00 0x00, not 0xF7 0xFF.
\<close>

theorem first_write_pin_not_from_ones:
  "sent (i2c_device (snd (write_pin (PCF8575_init echo) 3 False))) = [[0x00, 0x00]]
   \<and> sent (i2c_device (snd (write_pin (PCF8575_init echo) 3 False))) \<noteq> [[0xF7, 0xFF]]"
  by (simp add: write_pin_def write_gpio_def i2c_write_def PCF8575_init_def echo_def
      echo_write_def Let_def)

text \<open>
  C1, amended: the cached register value is 0x0000 at construction, so for every pin
  \<open>p\<close> in 0..15 and level \<open>v\<close> the first \<open>write_pin(p, v)\<close> (no \<open>write_gpio\<close> before
  it) transmits 0x0000 with bit \<open>p\<close> set to \<open>v\<close>: the value \<open>2 ^ p\<close> when \<open>v\<close> is true,
  0 otherwise, little-endian.
\<close>

theorem first_write_pin_from_zero:
  assumes "0 \<le> p" and "p \<le> 15"
  shows "cached (PCF8575_init dev) = 0x0000
       \<and> sent (i2c_device (snd (write_pin (PCF8575_init dev) p v)))
           = sent dev @ [le16 (if v then push_bit (nat p) 1 else 0)]
       \<and> reg16 (le16 (if v then push_bit (nat p) 1 else 0)) = (if v then 2 ^ nat p else 0)"
proof -
  have n: "nat p \<le> 15" using assms by simp
  have w: "write_pin (PCF8575_init dev) p v
      = write_gpio (PCF8575_init dev) (if v then push_bit (nat p) 1 else 0)"
    using assms(1) by (simp add: write_pin_eq init_cached)
  have "sent (i2c_device (snd (write_pin (PCF8575_init dev) p v)))
           = sent dev @ [le16 (if v then push_bit (nat p) 1 else 0)]"
    unfolding w by (simp add: write_gpio_sent init_fields)
  moreover have "reg16 (le16 (if v then push_bit (nat p) 1 else 0)) = (if v then 2 ^ nat p else 0)"
    using n by (simp add: reg16_le16 take_bit_16_pin)
  ultimately show ?thesis by (simp add: init_cached)
qed

theorem first_write_pin_from_zero_witness:
  "cached (PCF8575_init echo) = 0
   \<and> sent (i2c_device (snd (write_pin (PCF8575_init echo) 3 True))) = [[0x08, 0x00]]
   \<and> reg16 [0x08, 0x00] = 8"
  using first_write_pin_from_zero [of 3 echo True]
  by (simp add: echo_def le16_def)

subsection \<open>C2: no crosstalk between pins\<close>

text \<open>
  C2: for every pin index \<open>i\<close> in 0..15, every level \<open>v\<close> and every cached register
  value, \<open>write_pin(i, v)\<close> makes one write transaction; the register value it
  transmits (which is also the new cached value) has bit \<open>i\<close> equal to \<open>v\<close> and its
  other 15 bits equal to those of the previously cached value. Reading a pin's value
  leaves the cached register and the trace of transmitted values as they were.
\<close>

theorem write_pin_no_crosstalk:
  assumes "length (writebuf s) = 2" and "0 \<le> i" and "i \<le> 15"
  shows "\<exists>tx. sent (i2c_device (snd (write_pin s i v))) = sent (i2c_device s) @ [tx]
           \<and> writebuf (snd (write_pin s i v)) = tx
           \<and> bit (reg16 tx) (nat i) = v
           \<and> (\<forall>j<16. j \<noteq> nat i \<longrightarrow> bit (reg16 tx) j = bit (cached s) j)
           \<and> writebuf (snd (snd (get_value d s))) = writebuf s
           \<and> sent (i2c_device (snd (snd (get_value d s)))) = sent (i2c_device s)"
proof -
  let ?r = "if v then cached s OR push_bit (nat i) 1 else cached s AND NOT (push_bit (nat i) 1)"
  have n: "nat i < 16" using assms by simp
  have "sent (i2c_device (snd (write_pin s i v))) = sent (i2c_device s) @ [le16 ?r]"
    using assms(1,2) by (simp only: write_pin_eq write_gpio_sent)
  moreover have "writebuf (snd (write_pin s i v)) = le16 ?r"
    using assms(1,2) by (simp only: write_pin_eq write_gpio_writebuf)
  moreover have "bit (reg16 (le16 ?r)) (nat i) = v"
    using n by (cases v)
      (simp_all only: bit_reg16_le16 bit_set_pin bit_clear_pin if_True if_False simp_thms)
  moreover have "\<forall>j<16. j \<noteq> nat i \<longrightarrow> bit (reg16 (le16 ?r)) j = bit (cached s) j"
    by (cases v) (auto simp only: bit_reg16_le16 bit_set_pin bit_clear_pin if_True if_False)
  ultimately show ?thesis
    using get_value_frame(1,2) [of d s] by blast
qed

theorem write_pin_no_crosstalk_witness:
  "sent (i2c_device (snd (write_pin (snd (write_gpio (PCF8575_init echo) 0xA5C3)) 4 True)))
     = [[0xC3, 0xA5], [0xD3, 0xA5]]
   \<and> writebuf (snd (snd (get_value \<lparr>dio_pin = 4, dio_dir = INPUT\<rparr>
        (snd (write_gpio (PCF8575_init echo) 0xA5C3))))) = [0xC3, 0xA5]"
  using write_pin_no_crosstalk [of "snd (write_gpio (PCF8575_init echo) 0xA5C3)" 4 True
      "\<lparr>dio_pin = 4, dio_dir = INPUT\<rparr>"]
  by (simp add: write_pin_def write_gpio_def i2c_write_def PCF8575_init_def echo_def
      echo_write_def Let_def get_value_def read_pin_def read_gpio_def i2c_readinto_def
      echo_read_def)

subsection \<open>C3: switch_to_input with no pull argument\<close>

text \<open>
  C3 says that \<open>switch_to_input\<close> with no \<open>pull\<close> argument succeeds. In the source
  the default \<open>pull=None\<close> is handed to the \<open>pull\<close> setter, whose test
  \<open>val is digitalio.Pull.UP\<close> fails for \<open>None\<close>: the call never returns normally,
  whatever the pin and the state. On a fresh object over the loopback device, pin 0:
  the direction setter has written the pin high and stored INPUT, and then
  NotImplementedError is raised.
\<close>

theorem switch_to_input_without_pull_raises:
  "(\<exists>e. fst (switch_to_input d s NoneObj) = Inl e)
   \<and> switch_to_input \<lparr>dio_pin = 0, dio_dir = OUTPUT\<rparr> (PCF8575_init echo) NoneObj
       = (Inl (NotImplementedError ''Pull-down resistors not supported.''),
          \<lparr>dio_pin = 0, dio_dir = INPUT\<rparr>,
          \<lparr>i2c_device = echo\<lparr>chip := (0x01, 0x00), sent := [[0x01, 0x00]]\<rparr>,
           writebuf = [0x01, 0x00], readbuf = [0x00, 0x00]\<rparr>)"
proof -
  have "\<exists>e. fst (switch_to_input d s NoneObj) = Inl e"
    by (auto simp add: switch_to_input_def set_pull_def split: prod.splits sum.splits)
  moreover have "switch_to_input \<lparr>dio_pin = 0, dio_dir = OUTPUT\<rparr> (PCF8575_init echo) NoneObj
       = (Inl (NotImplementedError ''Pull-down resistors not supported.''),
          \<lparr>dio_pin = 0, dio_dir = INPUT\<rparr>,
          \<lparr>i2c_device = echo\<lparr>chip := (0x01, 0x00), sent := [[0x01, 0x00]]\<rparr>,
           writebuf = [0x01, 0x00], readbuf = [0x00, 0x00]\<rparr>)"
    by (simp add: switch_to_input_def set_direction_def set_pull_def write_pin_def
        write_gpio_def i2c_write_def PCF8575_init_def echo_def echo_write_def Let_def)
  ultimately show ?thesis by blast
qed

subsection \<open>C4: validation of the pin index\<close>

text \<open>
  C4 as the spec states it: constructing a DigitalInOut with pin index 16 or -1 fails.
  \<open>DigitalInOut.__init__\<close> stores any index it is given and never raises.
\<close>

theorem constructor_accepts_any_index:
  "DigitalInOut_init 16 = Inr \<lparr>dio_pin = 16, dio_dir = INPUT\<rparr>
   \<and> DigitalInOut_init (- 1) = Inr \<lparr>dio_pin = - 1, dio_dir = INPUT\<rparr>"
  by (simp add: DigitalInOut_init_def)

text \<open>
  C4, amended: the range check is the assertion in \<open>PCF8575.get_pin\<close>. \<open>get_pin\<close>
  with index 16 or -1 fails with AssertionError, with index 0 or 15 it returns a pin
  whose direction tag is INPUT; it succeeds exactly for \<open>0 \<le> pin \<le> 15\<close> and leaves the
  PCF8575 object (buffers and bus) as it was. The constructor itself accepts every
  index and touches nothing either.
\<close>

theorem get_pin_validates_index:
  "get_pin s 16 = (Inl AssertionError, s)
   \<and> get_pin s (- 1) = (Inl AssertionError, s)
   \<and> get_pin s 0 = (Inr \<lparr>dio_pin = 0, dio_dir = INPUT\<rparr>, s)
   \<and> get_pin s 15 = (Inr \<lparr>dio_pin = 15, dio_dir = INPUT\<rparr>, s)
   \<and> get_pin s p = (if 0 \<le> p \<and> p \<le> 15 then Inr \<lparr>dio_pin = p, dio_dir = INPUT\<rparr>
                     else Inl AssertionError, s)
   \<and> DigitalInOut_init p = Inr \<lparr>dio_pin = p, dio_dir = INPUT\<rparr>"
  by (simp add: get_pin_def DigitalInOut_init_def)

subsection \<open>C5: write_gpio then read_gpio on the loopback device\<close>

text \<open>
  C5: for every 16-bit value \<open>v\<close>, \<open>write_gpio(v)\<close> followed by \<open>read_gpio()\<close> on a
  device that echoes the written bytes returns exactly \<open>v\<close>. The buffer on the wire
  is little-endian, byte 0 = \<open>v & 0xFF\<close> and byte 1 = \<open>(v >> 8) & 0xFF\<close>; the device
  latches these two bytes, \<open>read_gpio\<close> receives them into \<open>_readbuf\<close> and composes
  them in the same order. The decoding is that of the device's reply, whatever the
  cache holds: in any state \<open>t\<close> whose device answers a read with the bytes \<open>b0\<close>,
  \<open>b1\<close>, \<open>read_gpio\<close> stores them in \<open>_readbuf\<close> and returns \<open>b0 | (b1 << 8)\<close>.
\<close>

theorem write_then_read_roundtrip:
  assumes "buffers_ok s"
    and "on_write (i2c_device s) = echo_write" and "on_read (i2c_device s) = echo_read"
    and "0 \<le> v" and "v < 65536"
  shows "fst (write_gpio s v) = Inr ()
       \<and> sent (i2c_device (snd (write_gpio s v))) = sent (i2c_device s) @ [le16 v]
       \<and> uint (le16 v ! 0) = v AND 0xFF
       \<and> uint (le16 v ! 1) = drop_bit 8 v AND 0xFF
       \<and> fst (read_gpio (snd (write_gpio s v))) = Inr v
       \<and> chip (i2c_device (snd (write_gpio s v))) = (le16 v ! 0, le16 v ! 1)
       \<and> readbuf (snd (read_gpio (snd (write_gpio s v)))) = le16 v
       \<and> writebuf (snd (read_gpio (snd (write_gpio s v)))) = le16 v
       \<and> (length (readbuf t) = 2
            \<and> on_read (i2c_device t) (chip (i2c_device t)) = Some ((b0, b1), c) \<longrightarrow>
              fst (read_gpio t) = Inr (uint b0 OR push_bit 8 (uint b1))
            \<and> readbuf (snd (read_gpio t)) = [b0, b1]
            \<and> writebuf (snd (read_gpio t)) = writebuf t
            \<and> chip (i2c_device (snd (read_gpio t))) = c)"
proof -
  let ?s1 = "snd (write_gpio s v)"
  have w: "length (writebuf s) = 2" and r: "length (readbuf s) = 2"
    using assms(1) by (simp_all add: buffers_ok_def)
  have res: "fst (write_gpio s v) = Inr ()"
    by (simp add: write_gpio_result [OF w] assms(2) echo_write_le16)
  have ch: "chip (i2c_device ?s1) = (le16 v ! 0, le16 v ! 1)"
    by (simp add: write_gpio_chip [OF w] assms(2) echo_write_le16)
  have rd: "on_read (i2c_device ?s1) (chip (i2c_device ?s1))
      = Some ((le16 v ! 0, le16 v ! 1), (le16 v ! 0, le16 v ! 1))"
    by (simp add: write_gpio_frame assms(3) ch echo_read_def)
  have rb: "length (readbuf ?s1) = 2"
    by (simp add: write_gpio_frame r)
  have pair: "[le16 v ! 0, le16 v ! 1] = le16 v"
    by (simp add: le16_def)
  have "fst (read_gpio ?s1) = Inr (reg16 (le16 v))"
    using read_gpio_reply(1) [OF rb rd] by (simp add: reg16_def)
  moreover have "take_bit 16 v = v"
    using assms(4,5) by (simp add: take_bit_int_eq_self)
  ultimately have rt: "fst (read_gpio ?s1) = Inr v"
    by (simp add: reg16_le16)
  have rbuf: "readbuf (snd (read_gpio ?s1)) = le16 v"
    using read_gpio_reply(2) [OF rb rd] by (simp only: pair)
  have wbuf: "writebuf (snd (read_gpio ?s1)) = le16 v"
    by (simp only: read_gpio_frame(1) write_gpio_writebuf [OF w])
  have gen: "fst (read_gpio t) = Inr (uint b0 OR push_bit 8 (uint b1))
            \<and> readbuf (snd (read_gpio t)) = [b0, b1]
            \<and> writebuf (snd (read_gpio t)) = writebuf t
            \<and> chip (i2c_device (snd (read_gpio t))) = c"
    if h: "length (readbuf t) = 2
            \<and> on_read (i2c_device t) (chip (i2c_device t)) = Some ((b0, b1), c)"
    using read_gpio_reply [of t b0 b1 c] h read_gpio_frame(1) [of t] by simp
  show ?thesis
    using res write_gpio_sent [OF w, of v] uint_le16_0 [of v] uint_le16_1 [of v]
      rt ch rbuf wbuf gen
    by blast
qed

theorem write_then_read_roundtrip_witness:
  "fst (write_gpio (PCF8575_init echo) 0xBEEF) = Inr ()
   \<and> sent (i2c_device (snd (write_gpio (PCF8575_init echo) 0xBEEF))) = [[0xEF, 0xBE]]
   \<and> fst (read_gpio (snd (write_gpio (PCF8575_init echo) 0xBEEF))) = Inr 0xBEEF
   \<and> readbuf (snd (read_gpio (snd (write_gpio (PCF8575_init echo) 0xBEEF)))) = [0xEF, 0xBE]
   \<and> cached (PCF8575_init echo) = 0
   \<and> fst (read_gpio (PCF8575_init echo)) = Inr 0xFFFF
   \<and> readbuf (snd (read_gpio (PCF8575_init echo))) = [0xFF, 0xFF]
   \<and> writebuf (snd (read_gpio (PCF8575_init echo))) = [0x00, 0x00]"
  using write_then_read_roundtrip [of "PCF8575_init echo" "0xBEEF" "PCF8575_init echo"
      "0xFF" "0xFF" "(0xFF, 0xFF)"]
  by (simp add: buffers_ok_def init_fields init_cached echo_def echo_read_def le16_def)

subsection \<open>C6: the cache is the composition of the writes\<close>

text \<open>
  C6: after any sequence of calls with arguments in range (16-bit values, pin indices
  0..15), the cached register value is the bitwise composition of the \<open>write_pin\<close>
  calls layered on the most recent \<open>write_gpio\<close> value (on 0, the value at
  construction, when there was none): whatever came before a \<open>write_gpio\<close> is
  forgotten. \<open>read_gpio\<close> and \<open>read_pin\<close> never modify \<open>_writebuf\<close>: nothing read
  from the device is merged into the cache.
\<close>

theorem cache_is_layered_composition:
  assumes "length (writebuf s) = 2" and "list_all in_range ops"
  shows "cached (run s ops) = foldl layer (cached s) ops
       \<and> cached (run (PCF8575_init dev) ops) = foldl layer 0 ops
       \<and> (in_range (WriteGpio v) \<longrightarrow>
            cached (run s (pre @ WriteGpio v # ops)) = foldl layer v ops)
       \<and> writebuf (snd (read_gpio s)) = writebuf s
       \<and> writebuf (snd (read_pin s p)) = writebuf s"
proof -
  have a: "cached (run s ops) = foldl layer (cached s) ops"
    using assms by (rule run_layered)
  have "length (writebuf (PCF8575_init dev)) = 2"
    by (simp add: init_fields)
  then have b: "cached (run (PCF8575_init dev) ops) = foldl layer 0 ops"
    using assms(2) run_layered [of "PCF8575_init dev" ops] by (simp add: init_cached)
  have c: "cached (run s (pre @ WriteGpio v # ops)) = foldl layer v ops"
    if h: "in_range (WriteGpio v)"
  proof -
    have l: "length (writebuf (run s pre)) = 2"
      using assms(1) by (simp add: run_length)
    have "list_all in_range (WriteGpio v # ops)"
      using h assms(2) by simp
    then have "cached (run (run s pre) (WriteGpio v # ops))
        = foldl layer (cached (run s pre)) (WriteGpio v # ops)"
      using l by (intro run_layered)
    then show ?thesis by (simp add: run_append)
  qed
  show ?thesis using a b c read_gpio_frame(1) [of s] read_pin_frame(1) [of s p] by blast
qed

theorem cache_is_layered_composition_witness:
  "cached (run (PCF8575_init echo)
      [WritePin 0 True, WriteGpio 0xFF00, ReadGpio, WritePin 9 False, WritePin 2 True, ReadPin 2])
     = 0xFD04
   \<and> foldl layer 0
      [WritePin 0 True, WriteGpio 0xFF00, ReadGpio, WritePin 9 False, WritePin 2 True, ReadPin 2]
     = 0xFD04
   \<and> writebuf (snd (read_gpio (PCF8575_init echo))) = [0, 0]
   \<and> readbuf (snd (read_gpio (PCF8575_init echo))) = [0xFF, 0xFF]"
  using cache_is_layered_composition [of "PCF8575_init echo"
      "[WritePin 0 True, WriteGpio 0xFF00, ReadGpio, WritePin 9 False, WritePin 2 True, ReadPin 2]"
      echo 0 "[]" 0]
  by (simp add: init_fields init_cached read_gpio_def i2c_readinto_def echo_def echo_read_def)

subsection \<open>C7: the pull setter\<close>

text \<open>
  C7: for every pin in every direction state, setting \<open>pull\<close> to any value other
  than \<open>Pull.UP\<close> (\<open>Pull.DOWN\<close> included) raises NotImplementedError ("Pull-down
  resistors not supported.") and changes nothing; setting it to \<open>Pull.UP\<close> is
  \<open>write_pin(pin, True)\<close>, which succeeds when the transport accepts the write.
\<close>

theorem set_pull_only_up:
  "(val \<noteq> PullObj UP \<longrightarrow>
      set_pull d s val = (Inl (NotImplementedError ''Pull-down resistors not supported.''), d, s))
   \<and> set_pull d s (PullObj DOWN)
        = (Inl (NotImplementedError ''Pull-down resistors not supported.''), d, s)
   \<and> set_pull d s (PullObj UP)
        = (fst (write_pin s (dio_pin d) True), d, snd (write_pin s (dio_pin d) True))
   \<and> (length (writebuf s) = 2 \<and> 0 \<le> dio_pin d \<and> accepts_writes (i2c_device s) \<longrightarrow>
        fst (set_pull d s (PullObj UP)) = Inr ())"
proof -
  have "fst (set_pull d s (PullObj UP)) = Inr ()"
    if "length (writebuf s) = 2 \<and> 0 \<le> dio_pin d \<and> accepts_writes (i2c_device s)"
    using that write_pin_ok [of s "dio_pin d" True]
    by (cases "write_pin s (dio_pin d) True") (simp add: set_pull_def)
  then show ?thesis
    by (auto simp add: set_pull_def split: prod.splits)
qed

theorem set_pull_only_up_witness:
  "set_pull \<lparr>dio_pin = 5, dio_dir = OUTPUT\<rparr> (PCF8575_init echo) NoneObj
     = (Inl (NotImplementedError ''Pull-down resistors not supported.''),
        \<lparr>dio_pin = 5, dio_dir = OUTPUT\<rparr>, PCF8575_init echo)
   \<and> fst (set_pull \<lparr>dio_pin = 5, dio_dir = OUTPUT\<rparr> (PCF8575_init echo) (PullObj UP)) = Inr ()
   \<and> sent (i2c_device (snd (snd
        (set_pull \<lparr>dio_pin = 5, dio_dir = OUTPUT\<rparr> (PCF8575_init echo) (PullObj UP)))))
       = [[0x20, 0x00]]"
  using set_pull_only_up [of NoneObj "\<lparr>dio_pin = 5, dio_dir = OUTPUT\<rparr>" "PCF8575_init echo"]
  by (simp add: init_fields accepts_writes_def echo_def echo_write_def
      write_pin_def write_gpio_def i2c_write_def Let_def)

subsection \<open>C8: the direction setter rejects other values\<close>

text \<open>
  C8: setting the direction to a value that is neither INPUT nor OUTPUT fails (the
  source raises ValueError "Expected INPUT or OUTPUT direction!"); the cached
  direction tag and the PCF8575 object are left unchanged.
\<close>

theorem set_direction_rejects_other_values:
  assumes "val \<noteq> DirectionObj INPUT" and "val \<noteq> DirectionObj OUTPUT"
  shows "set_direction d s val
           = (Inl (ValueError ''Expected INPUT or OUTPUT direction!''), d, s)
       \<and> get_direction (fst (snd (set_direction d s val))) = get_direction d"
  using assms by (simp add: set_direction_def)

theorem set_direction_rejects_other_values_witness:
  "set_direction \<lparr>dio_pin = 2, dio_dir = OUTPUT\<rparr> (PCF8575_init echo) (PullObj UP)
     = (Inl (ValueError ''Expected INPUT or OUTPUT direction!''),
        \<lparr>dio_pin = 2, dio_dir = OUTPUT\<rparr>, PCF8575_init echo)
   \<and> get_direction (fst (snd
        (set_direction \<lparr>dio_pin = 2, dio_dir = OUTPUT\<rparr> (PCF8575_init echo) (PullObj UP))))
       = OUTPUT"
  using set_direction_rejects_other_values
      [of "PullObj UP" "\<lparr>dio_pin = 2, dio_dir = OUTPUT\<rparr>" "PCF8575_init echo"]
  by (simp add: get_direction_def)

subsection \<open>C9: switch_to_output writes the register twice\<close>

text \<open>
  C9: for every pin \<open>p\<close>, \<open>switch_to_output(value=v)\<close> makes two whole-register bus
  writes in order: \<open>write_pin(p, False)\<close> from the direction setter, then
  \<open>write_pin(p, v)\<close> from the value setter. The first transmitted value has bit \<open>p\<close>
  clear, also when \<open>v\<close> is true, the second has bit \<open>p\<close> equal to \<open>v\<close>, and so has
  the final cached register; the other bits are those of the cache before the call.
\<close>

theorem switch_to_output_writes_twice:
  assumes "length (writebuf s) = 2" and "0 \<le> dio_pin d" and "dio_pin d \<le> 15"
    and "accepts_writes (i2c_device s)"
  shows "fst (switch_to_output d s v) = Inr ()
       \<and> fst (snd (switch_to_output d s v)) = d\<lparr>dio_dir := OUTPUT\<rparr>
       \<and> snd (snd (switch_to_output d s v))
           = snd (write_pin (snd (write_pin s (dio_pin d) False)) (dio_pin d) v)
       \<and> (\<exists>tx1 tx2.
            sent (i2c_device (snd (snd (switch_to_output d s v))))
              = sent (i2c_device s) @ [tx1, tx2]
          \<and> \<not> bit (reg16 tx1) (nat (dio_pin d))
          \<and> bit (reg16 tx2) (nat (dio_pin d)) = v
          \<and> (\<forall>j<16. j \<noteq> nat (dio_pin d) \<longrightarrow>
                bit (reg16 tx1) j = bit (cached s) j \<and> bit (reg16 tx2) j = bit (cached s) j)
          \<and> writebuf (snd (snd (switch_to_output d s v))) = tx2)
       \<and> bit (cached (snd (snd (switch_to_output d s v)))) (nat (dio_pin d)) = v"
proof -
  let ?p = "dio_pin d"
  let ?s1 = "snd (write_pin s ?p False)"
  let ?s2 = "snd (write_pin ?s1 ?p v)"
  have n: "nat ?p < 16" using assms(2,3) by simp
  have ok1: "fst (write_pin s ?p False) = Inr ()"
    using assms(1,2,4) by (rule write_pin_ok)
  have l1: "length (writebuf ?s1) = 2"
    using assms(1) by (simp only: write_pin_length)
  have "accepts_writes (i2c_device ?s1)"
    using assms(4) by (simp only: write_pin_accepts)
  then have ok2: "fst (write_pin ?s1 ?p v) = Inr ()"
    using l1 assms(2) by (intro write_pin_ok)
  have eq: "switch_to_output d s v = (Inr (), d\<lparr>dio_dir := OUTPUT\<rparr>, ?s2)"
    using switch_to_output_eq [OF ok1, of v] ok2 by simp
  have t1: "sent (i2c_device ?s1) = sent (i2c_device s) @ [writebuf ?s1]"
    using assms(1,2) by (rule write_pin_bits(1))
  have t2: "sent (i2c_device ?s2) = sent (i2c_device ?s1) @ [writebuf ?s2]"
    using l1 assms(2) by (rule write_pin_bits(1))
  have b1: "bit (cached ?s1) j = (j < 16 \<and> (if j = nat ?p then False else bit (cached s) j))"
    for j using assms(1,2) by (rule write_pin_bits(2))
  have b2: "bit (cached ?s2) j = (j < 16 \<and> (if j = nat ?p then v else bit (cached ?s1) j))"
    for j using l1 assms(2) by (rule write_pin_bits(2))
  have tr: "sent (i2c_device ?s2) = sent (i2c_device s) @ [writebuf ?s1, writebuf ?s2]"
    using t1 t2 by simp
  have f1: "\<not> bit (reg16 (writebuf ?s1)) (nat ?p)"
    using b1 [of "nat ?p"] by (simp add: cached_def)
  have f2: "bit (reg16 (writebuf ?s2)) (nat ?p) = v"
    using b2 [of "nat ?p"] n by (simp add: cached_def)
  have f3: "\<forall>j<16. j \<noteq> nat ?p \<longrightarrow>
      bit (reg16 (writebuf ?s1)) j = bit (cached s) j
    \<and> bit (reg16 (writebuf ?s2)) j = bit (cached s) j"
    using b1 b2 by (simp add: cached_def)
  have ex: "\<exists>tx1 tx2.
            sent (i2c_device ?s2) = sent (i2c_device s) @ [tx1, tx2]
          \<and> \<not> bit (reg16 tx1) (nat ?p)
          \<and> bit (reg16 tx2) (nat ?p) = v
          \<and> (\<forall>j<16. j \<noteq> nat ?p \<longrightarrow>
                bit (reg16 tx1) j = bit (cached s) j \<and> bit (reg16 tx2) j = bit (cached s) j)
          \<and> writebuf ?s2 = tx2"
    using tr f1 f2 f3 by blast
  have "bit (cached ?s2) (nat ?p) = v"
    using f2 by (simp add: cached_def)
  then show ?thesis using ex by (simp add: eq)
qed

theorem switch_to_output_writes_twice_witness:
  "fst (switch_to_output \<lparr>dio_pin = 3, dio_dir = INPUT\<rparr>
          (snd (write_gpio (PCF8575_init echo) 0xFFFF)) True) = Inr ()
   \<and> sent (i2c_device (snd (snd (switch_to_output \<lparr>dio_pin = 3, dio_dir = INPUT\<rparr>
          (snd (write_gpio (PCF8575_init echo) 0xFFFF)) True))))
       = [[0xFF, 0xFF], [0xF7, 0xFF], [0xFF, 0xFF]]
   \<and> dio_dir (fst (snd (switch_to_output \<lparr>dio_pin = 3, dio_dir = INPUT\<rparr>
          (snd (write_gpio (PCF8575_init echo) 0xFFFF)) True))) = OUTPUT"
  using switch_to_output_writes_twice [of "snd (write_gpio (PCF8575_init echo) 0xFFFF)"
      "\<lparr>dio_pin = 3, dio_dir = INPUT\<rparr>" True]
  by (simp add: accepts_writes_def switch_to_output_def set_direction_def set_value_def
      write_pin_def write_gpio_def i2c_write_def PCF8575_init_def echo_def echo_write_def Let_def)

subsection \<open>C10: only the low 16 bits reach the wire\<close>

text \<open>
  C10: for every integer \<open>val\<close>, also one with more than 16 significant bits or a
  negative one, \<open>write_gpio(val)\<close> transmits exactly \<open>val mod 2^16\<close>: each stored
  byte is masked to 8 bits. So \<open>write_pin\<close> on a pin index of 16 or more transmits
  the previously cached register value again and leaves the cache as it was.
\<close>

theorem write_gpio_transmits_mod_65536:
  assumes "length (writebuf s) = 2"
  shows "sent (i2c_device (snd (write_gpio s val))) = sent (i2c_device s) @ [le16 val]
       \<and> reg16 (le16 val) = val mod 2 ^ 16
       \<and> uint (le16 val ! 0) = val AND 0xFF
       \<and> uint (le16 val ! 1) = drop_bit 8 val AND 0xFF
       \<and> (16 \<le> pin \<longrightarrow>
            sent (i2c_device (snd (write_pin s pin v))) = sent (i2c_device s) @ [writebuf s]
          \<and> writebuf (snd (write_pin s pin v)) = writebuf s
          \<and> cached (snd (write_pin s pin v)) = cached s)"
proof -
  have a: "sent (i2c_device (snd (write_gpio s val))) = sent (i2c_device s) @ [le16 val]"
    using assms by (rule write_gpio_sent)
  have b: "reg16 (le16 val) = val mod 2 ^ 16"
    by (simp only: reg16_le16 take_bit_eq_mod)
  have c: "sent (i2c_device (snd (write_pin s pin v))) = sent (i2c_device s) @ [writebuf s]
          \<and> writebuf (snd (write_pin s pin v)) = writebuf s
          \<and> cached (snd (write_pin s pin v)) = cached s" if h: "16 \<le> pin"
  proof -
    have p: "0 \<le> pin" and n: "16 \<le> nat pin" using h by simp_all
    show ?thesis
      using assms le16_high_pin [OF assms n]
      by (cases v)
        (simp_all add: write_pin_eq [OF p] write_gpio_sent write_gpio_writebuf cached_def)
  qed
  show ?thesis using a b c uint_le16_0 [of val] uint_le16_1 [of val] by blast
qed

theorem write_gpio_transmits_mod_65536_witness:
  "sent (i2c_device (snd (write_gpio (PCF8575_init echo) 0x12345))) = [[0x45, 0x23]]
   \<and> reg16 [0x45, 0x23] = 0x2345
   \<and> sent (i2c_device (snd (write_pin (snd (write_gpio (PCF8575_init echo) 0x12345)) 16 True)))
       = [[0x45, 0x23], [0x45, 0x23]]"
  using write_gpio_transmits_mod_65536
      [of "snd (write_gpio (PCF8575_init echo) 0x12345)" "0x12345" 16 True]
    write_gpio_transmits_mod_65536 [of "PCF8575_init echo" "0x12345" 16 True]
  by (simp add: write_pin_def write_gpio_def i2c_write_def PCF8575_init_def echo_def
      echo_write_def Let_def reg16_def le16_def)

end
